theory Spec2Isabelle
  imports Complex_Main "HOL-Library.Multiset"
begin

section \<open>Data model of \<open>main.py\<close>\<close>

text \<open>
  A row of the data frame loaded from the spreadsheet carries the columns the program
  reads: \<open>Request_id\<close>, \<open>Route_id\<close>, \<open>DBS\<close>, \<open>Distance\<close>, \<open>Duration\<close>, \<open>MGS\<close> and the
  derived \<open>date_only\<close>. A data frame is the list of its rows in index order. A value of
  a numeric column is a number or, for an empty cell of the spreadsheet, NaN.
  Python strings are modelled as their UTF-8 bytes, which keeps equality of strings.
\<close>

datatype pydate = Date int nat nat

datatype pyfloat = Num real | NaN

text \<open>Python's \<open>>=\<close> on floats: a comparison with NaN is false.\<close>

fun float_ge :: "pyfloat \<Rightarrow> pyfloat \<Rightarrow> bool" where
  "float_ge (Num a) (Num b) = (a \<ge> b)"
| "float_ge _ _ = False"

text \<open>The number that a value of a numeric column holds; it is taken of numbers only.\<close>

fun num :: "pyfloat \<Rightarrow> real" where
  "num (Num a) = a"
| "num NaN = 0"

record route_row =
  Request_id :: string
  Route_id :: string
  DBS :: string
  Distance :: pyfloat
  Duration :: pyfloat
  MGS :: string
  date_only :: pydate

type_synonym dataframe = "route_row list"

text \<open>The dictionary \<open>allocation_info\<close> built for every route of the loop.\<close>

record allocation_info =
  request_id :: string
  out_Route_id :: string
  out_DBS :: string
  out_Distance :: pyfloat
  out_Duration :: pyfloat
  Allocated_LCV :: string

text \<open>
  A Python \<open>dict\<close> is an association list in insertion order; \<open>keys()\<close> is \<open>map fst\<close>
  and \<open>get\<close> is \<open>map_of\<close>. The keys of a dict are pairwise distinct.
\<close>

type_synonym ('k, 'v) pydict = "('k \<times> 'v) list"

section \<open>The stage priority table\<close>

text \<open>The en dash U+2013 of two of the stage names, in UTF-8.\<close>

definition en_dash :: string where
  "en_dash = [CHR 0xE2, CHR 0x80, CHR 0x93]"

definition stage_priority :: "(string, int) pydict" where
  "stage_priority =
     [(''Stage 3 (Filled '' @ en_dash @ '' Waiting Area/Moving to DBS)'', 1),
      (''Stage 2 (Filling '' @ en_dash @ '' Safe Zone)'', 2),
      (''Stage 1 (Empty - Waiting Area)'', 3)]"

text \<open>
  The sort key \<open>lambda lcv: stage_priority.get(lcv_assignments.get(lcv), 99)\<close>.
  \<open>lcv_assignments.get(lcv)\<close> is \<open>None\<close> for a missing key, and \<open>None\<close> is no key of
  the table.
\<close>

definition priority_key :: "(string, string) pydict \<Rightarrow> string \<Rightarrow> int" where
  "priority_key lcv_assignments lcv =
     (case map_of lcv_assignments lcv of
        None \<Rightarrow> 99
      | Some stage \<Rightarrow> (case map_of stage_priority stage of None \<Rightarrow> 99 | Some r \<Rightarrow> r))"

text \<open>
  \<open>prioritized_lcvs = sorted(list(lcv_assignments.keys()), key=...)\<close>. Python's
  \<open>sorted\<close> is a stable sort, and the result of a stable sort is determined by its key,
  so the stable insertion sort \<open>sort_key\<close> computes the same list.
\<close>

definition prioritized_lcvs :: "(string, string) pydict \<Rightarrow> string list" where
  "prioritized_lcvs lcv_assignments =
     sort_key (priority_key lcv_assignments) (map fst lcv_assignments)"

section \<open>Sorting the routes\<close>

text \<open>
  \<open>selected_data.sort_values(by='Duration', ascending=False)\<close> is a call into pandas.
  It returns the rows in descending order of \<open>Duration\<close>, with the rows whose \<open>Duration\<close>
  is NaN after all others (\<open>na_position='last'\<close> is the default). The call leaves the
  sorting kind at its default \<open>quicksort\<close>, which pandas documents as not stable: how
  rows of equal \<open>Duration\<close> are arranged is decided inside the library. That arrangement
  is the parameter \<open>ties\<close>, a rearrangement of the rows that the sort starts from; with
  the identity the rows of equal \<open>Duration\<close> stay in frame order.
\<close>

definition sort_values_desc :: "(dataframe \<Rightarrow> dataframe) \<Rightarrow> dataframe \<Rightarrow> dataframe" where
  "sort_values_desc ties rows =
     (let met = ties rows
      in rev (sort_key (\<lambda>r. num (Duration r)) (rev (filter (\<lambda>r. Duration r \<noteq> NaN) met)))
         @ filter (\<lambda>r. Duration r = NaN) met)"

definition stable_sort_values :: "dataframe \<Rightarrow> dataframe" where
  "stable_sort_values rows = sort_values_desc (\<lambda>met. met) rows"

text \<open>
  The allocator below takes the sort as an argument. Where a property of the allocator
  does not depend on how the routes are ordered, it is proved for every sort that returns
  its rows rearranged: that is the contract. The sort of the code, \<open>sort_values_desc ties\<close>,
  meets it whenever \<open>ties\<close> does.
\<close>

definition sort_values_contract :: "(dataframe \<Rightarrow> dataframe) \<Rightarrow> bool" where
  "sort_values_contract sv \<longleftrightarrow> (\<forall>rows. mset (sv rows) = mset rows)"

section \<open>The allocator\<close>

text \<open>
  The objects \<open>allocate_lcvs_to_routes_api\<close> works on: its three arguments, the list
  that both \<open>prioritized_lcvs\<close> and \<open>lcvs_to_allocate\<close> name (one object, mutated by
  \<open>pop(0)\<close>), and the list \<open>allocations\<close>.
\<close>

record frame =
  data :: dataframe
  request_ids :: "string list"
  lcv_assignments :: "(string, string) pydict"
  lcvs_to_allocate :: "string list"
  allocations :: "allocation_info list"

text \<open>The body of \<open>for _, route in sorted_routes_desc.iterrows()\<close>.\<close>

definition loop_body :: "route_row \<Rightarrow> frame \<Rightarrow> frame" where
  "loop_body route st =
     (let info = \<lparr>request_id = Request_id route, out_Route_id = Route_id route,
                  out_DBS = DBS route, out_Distance = Distance route,
                  out_Duration = Duration route, Allocated_LCV = ''Pending''\<rparr>
      in case lcvs_to_allocate st of
           [] \<Rightarrow> st\<lparr>allocations := allocations st @ [info]\<rparr>
         | lcv # rest \<Rightarrow>
             st\<lparr>lcvs_to_allocate := rest,
                allocations := allocations st @ [info\<lparr>Allocated_LCV := lcv\<rparr>]\<rparr>)"

text \<open>One call: the value returned and the objects as the call leaves them.\<close>

definition allocate_call ::
  "(dataframe \<Rightarrow> dataframe) \<Rightarrow> frame \<Rightarrow> allocation_info list \<times> frame" where
  "allocate_call sort_values st =
     (let selected_data = filter (\<lambda>r. Request_id r \<in> set (request_ids st)) (data st)
      in if selected_data = [] then ([], st)
         else
           let sorted_routes_desc = sort_values selected_data;
               st1 = st\<lparr>lcvs_to_allocate := prioritized_lcvs (lcv_assignments st),
                        allocations := []\<rparr>;
               st2 = fold loop_body sorted_routes_desc st1
           in (allocations st2, st2))"

definition allocate_lcvs_to_routes_api ::
  "(dataframe \<Rightarrow> dataframe) \<Rightarrow> dataframe \<Rightarrow> string list \<Rightarrow> (string, string) pydict
     \<Rightarrow> allocation_info list" where
  "allocate_lcvs_to_routes_api sort_values d ids lcvs =
     fst (allocate_call sort_values
            \<lparr>data = d, request_ids = ids, lcv_assignments = lcvs,
             lcvs_to_allocate = [], allocations = []\<rparr>)"

text \<open>The rows the allocator selects, and the route columns an entry carries.\<close>

definition selected_rows :: "dataframe \<Rightarrow> string list \<Rightarrow> dataframe" where
  "selected_rows d ids = filter (\<lambda>r. Request_id r \<in> set ids) d"

definition entry_of :: "route_row \<Rightarrow> string \<Rightarrow> allocation_info" where
  "entry_of route lcv =
     \<lparr>request_id = Request_id route, out_Route_id = Route_id route,
      out_DBS = DBS route, out_Distance = Distance route,
      out_Duration = Duration route, Allocated_LCV = lcv\<rparr>"

text \<open>
  What the loop computes, as a recursion over the sorted routes and the queue: a route
  takes the head of the queue while there is one.
\<close>

fun pair_up :: "route_row list \<Rightarrow> string list \<Rightarrow> allocation_info list" where
  "pair_up [] q = []"
| "pair_up (r # rs) [] = entry_of r ''Pending'' # pair_up rs []"
| "pair_up (r # rs) (v # q) = entry_of r v # pair_up rs q"

section \<open>The request handler\<close>

record allocation_request =
  selected_date :: string
  selected_mgs :: string
  selected_request_ids :: "string list"
  lcv_stage_assignments :: "(string, string) pydict"

text \<open>
  What the handler deals with: the exceptions the date parsing can raise (\<open>ValueError\<close>
  stands for the class and its subclasses, which \<open>except ValueError\<close> catches), the
  \<open>Timestamp\<close> that \<open>pd.to_datetime\<close> returns (its calendar fields), and the ways a
  request ends: the list returned, an \<open>HTTPException\<close> raised by the handler, or an
  exception that leaves the handler uncaught.
\<close>

datatype exn = ValueError | OtherException string

datatype timestamp = Timestamp int nat nat

datatype response = Success "allocation_info list" | HTTPException nat string | Unhandled exn

text \<open>
  The expression \<open>pd.to_datetime(request.selected_date).date()\<close> inside the \<open>try\<close>.
  Both calls are pandas code and parameters here: each returns its value (\<open>Inr\<close>) or
  raises (\<open>Inl\<close>).
\<close>

definition request_date_of ::
  "(string \<Rightarrow> exn + timestamp) \<Rightarrow> (timestamp \<Rightarrow> exn + pydate) \<Rightarrow> string \<Rightarrow> exn + pydate" where
  "request_date_of to_datetime ts_date s =
     (case to_datetime s of Inl e \<Rightarrow> Inl e | Inr ts \<Rightarrow> ts_date ts)"

text \<open>
  \<open>create_allocation\<close>. The global \<open>df\<close> is \<open>None\<close> when loading failed. The handler
  catches \<open>ValueError\<close> only; any other exception of the \<open>try\<close> block leaves it.
\<close>

definition create_allocation ::
  "(string \<Rightarrow> exn + timestamp) \<Rightarrow> (timestamp \<Rightarrow> exn + pydate) \<Rightarrow> (dataframe \<Rightarrow> dataframe)
     \<Rightarrow> dataframe option \<Rightarrow> allocation_request \<Rightarrow> response" where
  "create_allocation to_datetime ts_date sort_values df request =
     (case df of
        None \<Rightarrow> HTTPException 500 ''Data could not be loaded. API is non-operational.''
      | Some frame_rows \<Rightarrow>
          (case request_date_of to_datetime ts_date (selected_date request) of
             Inl e \<Rightarrow>
               (if e = ValueError then
                  HTTPException 400 ''Invalid date format. Please use YYYY-MM-DD.''
                else Unhandled e)
           | Inr request_date \<Rightarrow>
               (let filtered_df =
                      filter (\<lambda>r. date_only r = request_date \<and> MGS r = selected_mgs request)
                        frame_rows
                in if filtered_df = [] then
                     HTTPException 404 ''No data found for the selected date and MGS.''
                   else
                     (let allocation_result =
                            allocate_lcvs_to_routes_api sort_values filtered_df
                              (selected_request_ids request) (lcv_stage_assignments request)
                      in if allocation_result = [] then
                           HTTPException 404
                             ''None of the selected request_ids were found in the dataset for the given date and MGS.''
                         else Success allocation_result))))"

section \<open>Example inputs\<close>

text \<open>
  A frame of four routes of one depot and day, a selection of three of them (two with the
  same duration), a frame with a route whose duration is missing, and vehicle mappings: one
  with two unrecognised stages, one shorter than the selection, and three that contain a
  vehicle whose identifier is the string \<open>Pending\<close>.
\<close>

definition example_row :: "string \<Rightarrow> string \<Rightarrow> real \<Rightarrow> route_row" where
  "example_row rid route dur =
     \<lparr>Request_id = rid, Route_id = route, DBS = ''D1'', Distance = Num 10,
      Duration = Num dur, MGS = ''M1'', date_only = Date 2024 7 16\<rparr>"

definition nan_data :: dataframe where
  "nan_data =
     [example_row ''q1'' ''r1'' 5, (example_row ''q2'' ''r2'' 0)\<lparr>Duration := NaN\<rparr>,
      example_row ''q3'' ''r3'' 7]"

definition example_data :: dataframe where
  "example_data =
     [example_row ''q1'' ''r1'' 50, example_row ''q2'' ''r2'' 90,
      example_row ''q3'' ''r3'' 50, example_row ''q4'' ''r4'' 70]"

definition example_ids :: "string list" where
  "example_ids = [''q1'', ''q2'', ''q3'']"

definition example_lcvs :: "(string, string) pydict" where
  "example_lcvs =
     [(''v1'', ''Stage 1 (Empty - Waiting Area)''), (''v2'', ''Stage 9''),
      (''v3'', ''Stage 3 (Filled '' @ en_dash @ '' Waiting Area/Moving to DBS)''),
      (''v4'', ''bogus'')]"

definition short_lcvs :: "(string, string) pydict" where
  "short_lcvs = [(''v9'', ''Stage 2 (Filling '' @ en_dash @ '' Safe Zone)'')]"

definition pending_lcvs :: "(string, string) pydict" where
  "pending_lcvs = [(''Pending'', ''Stage 1 (Empty - Waiting Area)'')]"

definition pending_first_lcvs :: "(string, string) pydict" where
  "pending_first_lcvs =
     [(''v1'', ''Stage 1 (Empty - Waiting Area)''),
      (''Pending'', ''Stage 3 (Filled '' @ en_dash @ '' Waiting Area/Moving to DBS)'')]"

definition pending_last_lcvs :: "(string, string) pydict" where
  "pending_last_lcvs =
     [(''Pending'', ''Stage 1 (Empty - Waiting Area)''),
      (''v1'', ''Stage 3 (Filled '' @ en_dash @ '' Waiting Area/Moving to DBS)'')]"

definition example_frame :: frame where
  "example_frame =
     \<lparr>data = example_data, request_ids = example_ids, lcv_assignments = example_lcvs,
      lcvs_to_allocate = [''left over''], allocations = []\<rparr>"

text \<open>
  Sample parsers for the examples of the request handler. \<open>example_to_datetime\<close> accepts
  three ways of writing one day and the year-zero date \<open>0000-01-01\<close>, and raises
  \<open>ValueError\<close> on anything else; \<open>example_ts_date\<close> converts a timestamp to a date
  when its year is one that \<open>datetime.date\<close> has (1 to 9999) and raises
  \<open>NotImplementedError\<close> otherwise, as pandas does.
\<close>

definition example_to_datetime :: "string \<Rightarrow> exn + timestamp" where
  "example_to_datetime s =
     (if s = ''2024-07-16'' \<or> s = ''2024/07/16'' \<or> s = ''July 16, 2024''
      then Inr (Timestamp 2024 7 16)
      else if s = ''0000-01-01'' then Inr (Timestamp 0 1 1)
      else Inl ValueError)"

fun example_ts_date :: "timestamp \<Rightarrow> exn + pydate" where
  "example_ts_date (Timestamp y m d) =
     (if 1 \<le> y \<and> y \<le> 9999 then Inr (Date y m d)
      else Inl (OtherException ''NotImplementedError''))"

definition example_request :: allocation_request where
  "example_request =
     \<lparr>selected_date = ''2024/07/16'', selected_mgs = ''M1'',
      selected_request_ids = example_ids, lcv_stage_assignments = example_lcvs\<rparr>"

section \<open>What the loop computes\<close>

lemma loop_body_empty:
  "lcvs_to_allocate st = [] \<Longrightarrow>
     loop_body r st = st\<lparr>allocations := allocations st @ [entry_of r ''Pending'']\<rparr>"
  by (simp add: loop_body_def entry_of_def)

lemma loop_body_pop:
  "lcvs_to_allocate st = v # q \<Longrightarrow>
     loop_body r st =
       st\<lparr>lcvs_to_allocate := q, allocations := allocations st @ [entry_of r v]\<rparr>"
  by (simp add: loop_body_def entry_of_def)

lemma fold_loop_body:
  "fold loop_body rs st =
     st\<lparr>lcvs_to_allocate := drop (length rs) (lcvs_to_allocate st),
        allocations := allocations st @ pair_up rs (lcvs_to_allocate st)\<rparr>"
proof (induction rs arbitrary: st)
  case Nil
  show ?case by simp
next
  case (Cons r rs)
  show ?case
  proof (cases "lcvs_to_allocate st")
    case Nil
    then show ?thesis
      by (simp add: Cons.IH loop_body_empty)
  next
    case (Cons v q)
    then show ?thesis
      by (simp add: Cons.IH loop_body_pop)
  qed
qed

lemma allocate_eq_pair_up:
  "allocate_lcvs_to_routes_api sort_values d ids lcvs =
     (if selected_rows d ids = [] then []
      else pair_up (sort_values (selected_rows d ids)) (prioritized_lcvs lcvs))"
  by (simp add: allocate_lcvs_to_routes_api_def allocate_call_def selected_rows_def
      fold_loop_body Let_def)

lemma allocate_call_eq:
  "allocate_call sv st =
     (if selected_rows (data st) (request_ids st) = [] then ([], st)
      else
        (pair_up (sv (selected_rows (data st) (request_ids st)))
           (prioritized_lcvs (lcv_assignments st)),
         st\<lparr>lcvs_to_allocate :=
              drop (length (sv (selected_rows (data st) (request_ids st))))
                (prioritized_lcvs (lcv_assignments st)),
            allocations :=
              pair_up (sv (selected_rows (data st) (request_ids st)))
                (prioritized_lcvs (lcv_assignments st))\<rparr>))"
  by (simp add: allocate_call_def selected_rows_def fold_loop_body Let_def)

lemma fst_allocate_call:
  "fst (allocate_call sv st) =
     allocate_lcvs_to_routes_api sv (data st) (request_ids st) (lcv_assignments st)"
  by (simp add: allocate_lcvs_to_routes_api_def allocate_call_def fold_loop_body Let_def)

lemma snd_allocate_call_inputs:
  "data (snd (allocate_call sv st)) = data st \<and>
   request_ids (snd (allocate_call sv st)) = request_ids st \<and>
   lcv_assignments (snd (allocate_call sv st)) = lcv_assignments st"
  by (simp add: allocate_call_def fold_loop_body Let_def)

lemma length_pair_up: "length (pair_up rs q) = length rs"
  by (induction rs q rule: pair_up.induct) simp_all

lemma lcv_pair_up:
  "map Allocated_LCV (pair_up rs q) =
     take (length rs) q @ replicate (length rs - length q) ''Pending''"
  by (induction rs q rule: pair_up.induct) (simp_all add: entry_of_def)

lemma duration_pair_up: "map out_Duration (pair_up rs q) = map Duration rs"
  by (induction rs q rule: pair_up.induct) (simp_all add: entry_of_def)

lemma strip_pair_up:
  "map (\<lambda>e. e\<lparr>Allocated_LCV := []\<rparr>) (pair_up rs q) = map (\<lambda>r. entry_of r []) rs"
  by (induction rs q rule: pair_up.induct) (simp_all add: entry_of_def)

lemma nth_pair_up:
  "i < length rs \<Longrightarrow>
     pair_up rs q ! i = entry_of (rs ! i) (if i < length q then q ! i else ''Pending'')"
proof (induction rs q arbitrary: i rule: pair_up.induct)
  case (1 q)
  then show ?case by simp
next
  case (2 r rs)
  then show ?case by (cases i) simp_all
next
  case (3 r rs v q)
  then show ?case by (cases i) simp_all
qed

section \<open>The contract of the route sort\<close>

lemma contract_mset: "sort_values_contract sv \<Longrightarrow> mset (sv rows) = mset rows"
  by (simp add: sort_values_contract_def)

lemma contract_length: "sort_values_contract sv \<Longrightarrow> length (sv rows) = length rows"
  by (metis contract_mset size_mset)

lemma sort_values_mset:
  assumes "sort_values_contract ties"
  shows "mset (sort_values_desc ties rows) = mset rows"
proof -
  have "mset (sort_values_desc ties rows) =
      mset (filter (\<lambda>r. Duration r \<noteq> NaN) (ties rows)) +
      mset (filter (\<lambda>r. \<not> Duration r \<noteq> NaN) (ties rows))"
    by (simp add: sort_values_desc_def Let_def)
  also have "\<dots> = mset (ties rows)"
    by (simp only: mset_filter multiset_partition [symmetric])
  finally show ?thesis
    using assms by (simp add: sort_values_contract_def)
qed

lemma sort_values_meets_contract:
  "sort_values_contract ties \<Longrightarrow> sort_values_contract (sort_values_desc ties)"
  by (simp add: sort_values_contract_def [of "sort_values_desc ties"] sort_values_mset)

lemma stable_sort_values_eq: "stable_sort_values = sort_values_desc (\<lambda>met. met)"
  by (rule ext) (simp add: stable_sort_values_def)

lemma stable_sort_values_contract: "sort_values_contract stable_sort_values"
  unfolding stable_sort_values_eq
  by (rule sort_values_meets_contract) (simp add: sort_values_contract_def)

lemma contract_Nil: "sort_values_contract sv \<Longrightarrow> sv [] = []"
  using contract_mset [of sv "[]"] by simp

section \<open>The vehicle queue\<close>

lemma stage_rank:
  "map_of stage_priority stage =
     (if stage = ''Stage 3 (Filled '' @ en_dash @ '' Waiting Area/Moving to DBS)'' then Some 1
      else if stage = ''Stage 2 (Filling '' @ en_dash @ '' Safe Zone)'' then Some 2
      else if stage = ''Stage 1 (Empty - Waiting Area)'' then Some 3
      else None)"
  by (simp add: stage_priority_def)

lemma sorted_prioritized:
  "sorted (map (priority_key lcvs) (prioritized_lcvs lcvs))"
  by (simp add: prioritized_lcvs_def)

lemma mset_prioritized: "mset (prioritized_lcvs lcvs) = mset (map fst lcvs)"
  by (simp add: prioritized_lcvs_def)

lemma set_prioritized: "set (prioritized_lcvs lcvs) = set (map fst lcvs)"
  by (simp add: prioritized_lcvs_def)

lemma stable_prioritized:
  "filter (\<lambda>v. priority_key lcvs v = k) (prioritized_lcvs lcvs) =
     filter (\<lambda>v. priority_key lcvs v = k) (map fst lcvs)"
  by (simp add: prioritized_lcvs_def sort_key_stable)

lemma length_prioritized: "length (prioritized_lcvs lcvs) = length lcvs"
  by (simp add: prioritized_lcvs_def)

lemma distinct_prioritized:
  "distinct (map fst lcvs) \<Longrightarrow> distinct (prioritized_lcvs lcvs)"
  by (simp add: prioritized_lcvs_def)

lemma distinct_count_le_1: "distinct xs \<Longrightarrow> length (filter (\<lambda>x. x = v) xs) \<le> Suc 0"
  by (induction xs) (auto simp: filter_empty_conv)

lemma sorted_nth_strict:
  assumes "sorted (map f q)" "i < length q" "j < length q" "f (q ! i) < f (q ! j)"
  shows "i < j"
proof (rule ccontr)
  assume "\<not> i < j"
  then have ji: "j \<le> i" by simp
  have "sorted_wrt (\<lambda>a b. f a \<le> f b) q"
    using assms(1) by (simp add: sorted_map)
  then have "f (q ! j) \<le> f (q ! i)" if "j < i"
    using that assms(2) sorted_wrt_nth_less [of "\<lambda>a b. f a \<le> f b" q j i] by simp
  then have "f (q ! j) \<le> f (q ! i)"
    using ji by (cases "j = i") simp_all
  with assms(4) show False by simp
qed

section \<open>The output of the allocator\<close>

lemma allocate_contract:
  "sort_values_contract sv \<Longrightarrow>
     allocate_lcvs_to_routes_api sv d ids lcvs =
       pair_up (sv (selected_rows d ids)) (prioritized_lcvs lcvs)"
  by (simp add: allocate_eq_pair_up contract_Nil)

lemma length_allocate:
  "sort_values_contract sv \<Longrightarrow>
     length (allocate_lcvs_to_routes_api sv d ids lcvs) = length (selected_rows d ids)"
  by (simp add: allocate_contract length_pair_up contract_length)

lemma lcv_allocate:
  assumes "sort_values_contract sv"
  shows "map Allocated_LCV (allocate_lcvs_to_routes_api sv d ids lcvs) =
           take (length (selected_rows d ids)) (prioritized_lcvs lcvs) @
           replicate (length (selected_rows d ids) - length lcvs) ''Pending''"
  using assms
  by (simp add: allocate_contract lcv_pair_up contract_length length_prioritized)

lemma nth_lcv_allocate:
  assumes "sort_values_contract sv"
    and "i < length (selected_rows d ids)"
  shows "Allocated_LCV (allocate_lcvs_to_routes_api sv d ids lcvs ! i) =
           (if i < length lcvs then prioritized_lcvs lcvs ! i else ''Pending'')"
proof -
  let ?out = "allocate_lcvs_to_routes_api sv d ids lcvs"
  let ?n = "length (selected_rows d ids)"
  have len: "length ?out = ?n"
    by (simp add: allocate_contract [OF assms(1)] length_pair_up contract_length [OF assms(1)])
  have "Allocated_LCV (?out ! i) = map Allocated_LCV ?out ! i"
    using assms(2) len by simp
  also have "\<dots> = (take ?n (prioritized_lcvs lcvs) @
      replicate (?n - length lcvs) ''Pending'') ! i"
    by (simp only: lcv_allocate [OF assms(1)])
  also have "\<dots> = (if i < length lcvs then prioritized_lcvs lcvs ! i else ''Pending'')"
    using assms(2) by (simp add: nth_append length_prioritized)
  finally show ?thesis .
qed

lemma count_lcv:
  "length (filter (\<lambda>e. Allocated_LCV e = v) out) =
     length (filter (\<lambda>x. x = v) (map Allocated_LCV out))"
  by (induction out) simp_all

lemma count_lcv_allocate:
  assumes "sort_values_contract sv" and "distinct (map fst lcvs)" and "v \<noteq> ''Pending''"
  shows "length (filter (\<lambda>e. Allocated_LCV e = v)
           (allocate_lcvs_to_routes_api sv d ids lcvs)) \<le> 1"
proof -
  let ?n = "length (selected_rows d ids)"
  let ?q = "prioritized_lcvs lcvs"
  have "filter (\<lambda>x. x = v) (replicate (?n - length lcvs) ''Pending'') = []"
    using assms(3) by simp
  then have "length (filter (\<lambda>e. Allocated_LCV e = v)
        (allocate_lcvs_to_routes_api sv d ids lcvs)) =
      length (filter (\<lambda>x. x = v) (take ?n ?q))"
    by (simp add: count_lcv lcv_allocate [OF assms(1)])
  moreover have "distinct (take ?n ?q)"
    using distinct_prioritized [OF assms(2)] by simp
  ultimately show ?thesis
    using distinct_count_le_1 [of "take ?n ?q" v] by simp
qed

lemma routes_allocate:
  "sort_values_contract sv \<Longrightarrow>
     mset (map (\<lambda>e. e\<lparr>Allocated_LCV := []\<rparr>) (allocate_lcvs_to_routes_api sv d ids lcvs)) =
     mset (map (\<lambda>r. entry_of r []) (selected_rows d ids))"
proof -
  assume c: "sort_values_contract sv"
  have "mset (map (\<lambda>r. entry_of r []) (sv (selected_rows d ids))) =
      mset (map (\<lambda>r. entry_of r []) (selected_rows d ids))"
    by (simp add: contract_mset [OF c])
  then show ?thesis
    by (simp only: allocate_contract [OF c] strip_pair_up)
qed

lemma count_pending_allocate:
  assumes "sort_values_contract sv"
  shows "length (filter (\<lambda>e. Allocated_LCV e = ''Pending'')
           (allocate_lcvs_to_routes_api sv d ids lcvs)) =
         length (filter (\<lambda>x. x = ''Pending'')
           (take (length (selected_rows d ids)) (prioritized_lcvs lcvs))) +
         (length (selected_rows d ids) - length lcvs)"
  by (simp add: count_lcv lcv_allocate [OF assms])

lemma allocate_empty_iff:
  assumes "sort_values_contract sv"
  shows "allocate_lcvs_to_routes_api sv d ids lcvs = [] \<longleftrightarrow> selected_rows d ids = []"
  using length_allocate [OF assms, of d ids lcvs] by (metis length_0_conv)

lemma selected_rows_empty_iff:
  "selected_rows d ids = [] \<longleftrightarrow> set (map Request_id d) \<inter> set ids = {}"
  by (auto simp add: selected_rows_def filter_empty_conv)

lemma assigned_order_allocate:
  assumes c: "sort_values_contract sv"
    and i: "i < length (allocate_lcvs_to_routes_api sv d ids lcvs)" and il: "i < length lcvs"
    and j: "j < length (allocate_lcvs_to_routes_api sv d ids lcvs)" and jl: "j < length lcvs"
    and r: "priority_key lcvs (Allocated_LCV (allocate_lcvs_to_routes_api sv d ids lcvs ! i)) <
            priority_key lcvs (Allocated_LCV (allocate_lcvs_to_routes_api sv d ids lcvs ! j))"
  shows "i < j"
proof -
  let ?q = "prioritized_lcvs lcvs"
  have i': "i < length (selected_rows d ids)" and j': "j < length (selected_rows d ids)"
    using i j by (simp_all add: length_allocate [OF c])
  have qi: "Allocated_LCV (allocate_lcvs_to_routes_api sv d ids lcvs ! i) = ?q ! i"
    using il by (simp add: nth_lcv_allocate [OF c i'])
  have qj: "Allocated_LCV (allocate_lcvs_to_routes_api sv d ids lcvs ! j) = ?q ! j"
    using jl by (simp add: nth_lcv_allocate [OF c j'])
  show ?thesis
  proof (rule sorted_nth_strict [of "priority_key lcvs" ?q])
    show "sorted (map (priority_key lcvs) ?q)" by (rule sorted_prioritized)
    show "i < length ?q" using il by (simp add: length_prioritized)
    show "j < length ?q" using jl by (simp add: length_prioritized)
    show "priority_key lcvs (?q ! i) < priority_key lcvs (?q ! j)"
      using r by (simp only: qi qj)
  qed
qed

lemma assigned_distinct_allocate:
  assumes c: "sort_values_contract sv" and d: "distinct (map fst lcvs)"
    and i: "i < length (allocate_lcvs_to_routes_api sv d' ids lcvs)" and il: "i < length lcvs"
    and j: "j < length (allocate_lcvs_to_routes_api sv d' ids lcvs)" and jl: "j < length lcvs"
    and e: "Allocated_LCV (allocate_lcvs_to_routes_api sv d' ids lcvs ! i) =
            Allocated_LCV (allocate_lcvs_to_routes_api sv d' ids lcvs ! j)"
  shows "i = j"
proof -
  let ?q = "prioritized_lcvs lcvs"
  have i': "i < length (selected_rows d' ids)" and j': "j < length (selected_rows d' ids)"
    using i j by (simp_all add: length_allocate [OF c])
  have "?q ! i = ?q ! j"
    using e il jl by (simp add: nth_lcv_allocate [OF c i'] nth_lcv_allocate [OF c j'])
  moreover have "distinct ?q" by (rule distinct_prioritized [OF d])
  moreover have "i < length ?q" "j < length ?q"
    using il jl by (simp_all add: length_prioritized)
  ultimately show ?thesis
    by (simp add: nth_eq_iff_index_eq)
qed

lemma durations_allocate:
  "map out_Duration (allocate_lcvs_to_routes_api sv d ids lcvs) =
     (if selected_rows d ids = [] then [] else map Duration (sv (selected_rows d ids)))"
  by (simp add: allocate_eq_pair_up duration_pair_up)

lemma sorted_numbers:
  "sorted_wrt float_ge
     (map Duration (rev (sort_key (\<lambda>r. num (Duration r)) (filter (\<lambda>r. Duration r \<noteq> NaN) xs))))"
proof -
  let ?k = "\<lambda>r. num (Duration r)"
  let ?s = "sort_key ?k (filter (\<lambda>r. Duration r \<noteq> NaN) xs)"
  have "sorted (map ?k ?s)" by simp
  then have "sorted_wrt (\<lambda>a b. ?k a \<le> ?k b) ?s"
    by (simp add: sorted_map)
  then have "sorted_wrt (\<lambda>a b. ?k b \<le> ?k a) (rev ?s)"
    by (simp add: sorted_wrt_rev)
  moreover have "float_ge (Duration a) (Duration b)"
    if "a \<in> set (rev ?s)" "b \<in> set (rev ?s)" "?k b \<le> ?k a" for a b
  proof -
    from that(1,2) have "Duration a \<noteq> NaN" "Duration b \<noteq> NaN" by simp_all
    with that(3) show ?thesis
      by (cases "Duration a"; cases "Duration b") simp_all
  qed
  ultimately have "sorted_wrt (\<lambda>a b. float_ge (Duration a) (Duration b)) (rev ?s)"
    by (rule sorted_wrt_mono_rel [rotated])
  then show ?thesis
    by (simp add: sorted_wrt_map)
qed

lemma durations_sort_values_desc:
  "filter (\<lambda>x. x \<noteq> NaN) (map Duration (sort_values_desc ties rows)) =
     map Duration (rev (sort_key (\<lambda>r. num (Duration r))
       (filter (\<lambda>r. Duration r \<noteq> NaN) (rev (ties rows)))))"
  "filter (\<lambda>x. x = NaN) (map Duration (sort_values_desc ties rows)) =
     map Duration (filter (\<lambda>r. Duration r = NaN) (ties rows))"
  "map Duration (sort_values_desc ties rows) =
     map Duration (rev (sort_key (\<lambda>r. num (Duration r))
       (filter (\<lambda>r. Duration r \<noteq> NaN) (rev (ties rows))))) @
     map Duration (filter (\<lambda>r. Duration r = NaN) (ties rows))"
proof -
  let ?k = "\<lambda>r. num (Duration r)"
  let ?A = "rev (sort_key ?k (filter (\<lambda>r. Duration r \<noteq> NaN) (rev (ties rows))))"
  let ?B = "filter (\<lambda>r. Duration r = NaN) (ties rows)"
  have sv: "sort_values_desc ties rows = ?A @ ?B"
    by (simp add: sort_values_desc_def Let_def rev_filter)
  have A: "filter (\<lambda>r. Duration r \<noteq> NaN) ?A = ?A" "filter (\<lambda>r. Duration r = NaN) ?A = []"
    by (simp_all add: filter_id_conv filter_empty_conv)
  have B: "filter (\<lambda>r. Duration r \<noteq> NaN) ?B = []" "filter (\<lambda>r. Duration r = NaN) ?B = ?B"
    by (simp_all add: filter_empty_conv)
  show "filter (\<lambda>x. x \<noteq> NaN) (map Duration (sort_values_desc ties rows)) = map Duration ?A"
    unfolding sv by (simp only: filter_map comp_def map_append filter_append A B append_Nil2 list.map)
  show "filter (\<lambda>x. x = NaN) (map Duration (sort_values_desc ties rows)) = map Duration ?B"
    unfolding sv by (simp only: filter_map comp_def map_append filter_append A B append_Nil list.map)
  show "map Duration (sort_values_desc ties rows) = map Duration ?A @ map Duration ?B"
    unfolding sv by simp
qed

lemma sorted_wrt_float_ge_no_NaN:
  "sorted_wrt float_ge (filter (\<lambda>x. x \<noteq> NaN) (map Duration (sort_values_desc ties rows)))"
  by (simp only: durations_sort_values_desc(1) sorted_numbers)

section \<open>Evaluating the examples\<close>

lemma example_prioritized: "prioritized_lcvs example_lcvs = [''v3'', ''v1'', ''v2'', ''v4'']"
  by (simp add: prioritized_lcvs_def example_lcvs_def priority_key_def stage_priority_def
      en_dash_def)

lemma example_selected:
  "selected_rows example_data example_ids =
     [example_row ''q1'' ''r1'' 50, example_row ''q2'' ''r2'' 90, example_row ''q3'' ''r3'' 50]"
  by (simp add: selected_rows_def example_data_def example_ids_def example_row_def)

lemma example_sorted:
  "stable_sort_values (selected_rows example_data example_ids) =
     [example_row ''q2'' ''r2'' 90, example_row ''q1'' ''r1'' 50, example_row ''q3'' ''r3'' 50]"
  by (simp add: example_selected stable_sort_values_def sort_values_desc_def example_row_def)

lemma example_pair_up:
  "allocate_lcvs_to_routes_api stable_sort_values example_data example_ids lcvs =
     pair_up [example_row ''q2'' ''r2'' 90, example_row ''q1'' ''r1'' 50,
              example_row ''q3'' ''r3'' 50] (prioritized_lcvs lcvs)"
  by (simp only: allocate_contract [OF stable_sort_values_contract] example_sorted)

lemma example_allocation:
  "allocate_lcvs_to_routes_api stable_sort_values example_data example_ids example_lcvs =
     [entry_of (example_row ''q2'' ''r2'' 90) ''v3'',
      entry_of (example_row ''q1'' ''r1'' 50) ''v1'',
      entry_of (example_row ''q3'' ''r3'' 50) ''v2'']"
  by (simp add: example_pair_up example_prioritized)

lemma example_selected_q2:
  "selected_rows example_data [''q2''] = [example_row ''q2'' ''r2'' 90]"
  by (simp add: selected_rows_def example_data_def example_row_def)

lemma example_selected_none: "selected_rows example_data [''q9''] = []"
  by (simp add: selected_rows_def example_data_def example_row_def)

lemma short_prioritized: "prioritized_lcvs short_lcvs = [''v9'']"
  by (simp add: prioritized_lcvs_def short_lcvs_def)

lemma short_allocation:
  "map Allocated_LCV
     (allocate_lcvs_to_routes_api stable_sort_values example_data example_ids short_lcvs) =
     [''v9'', ''Pending'', ''Pending'']"
  by (simp add: example_pair_up short_prioritized entry_of_def)

lemma pending_prioritized: "prioritized_lcvs pending_lcvs = [''Pending'']"
  by (simp add: prioritized_lcvs_def pending_lcvs_def)

lemma pending_allocation:
  "map Allocated_LCV
     (allocate_lcvs_to_routes_api stable_sort_values example_data example_ids pending_lcvs) =
     [''Pending'', ''Pending'', ''Pending'']"
  by (simp add: example_pair_up pending_prioritized entry_of_def)

lemma pending_first_prioritized: "prioritized_lcvs pending_first_lcvs = [''Pending'', ''v1'']"
  by (simp add: prioritized_lcvs_def pending_first_lcvs_def priority_key_def stage_priority_def
      en_dash_def)

lemma pending_first_allocation:
  "map Allocated_LCV
     (allocate_lcvs_to_routes_api stable_sort_values example_data example_ids
        pending_first_lcvs) = [''Pending'', ''v1'', ''Pending'']"
  by (simp add: example_pair_up pending_first_prioritized entry_of_def)

lemma pending_first_length:
  "length (allocate_lcvs_to_routes_api stable_sort_values example_data example_ids
     pending_first_lcvs) = 3"
  by (simp add: example_pair_up length_pair_up)

lemma pending_last_prioritized: "prioritized_lcvs pending_last_lcvs = [''v1'', ''Pending'']"
  by (simp add: prioritized_lcvs_def pending_last_lcvs_def priority_key_def stage_priority_def
      en_dash_def)

lemma pending_last_allocation:
  "map Allocated_LCV
     (allocate_lcvs_to_routes_api stable_sort_values example_data [''q2''] pending_last_lcvs) =
     [''v1'']"
  by (simp add: allocate_contract [OF stable_sort_values_contract] example_selected_q2
      stable_sort_values_def sort_values_desc_def example_row_def pending_last_prioritized
      entry_of_def)

lemma example_call:
  "allocate_call stable_sort_values example_frame =
     ([entry_of (example_row ''q2'' ''r2'' 90) ''v3'',
       entry_of (example_row ''q1'' ''r1'' 50) ''v1'',
       entry_of (example_row ''q3'' ''r3'' 50) ''v2''],
      example_frame\<lparr>lcvs_to_allocate := [''v4''],
        allocations := [entry_of (example_row ''q2'' ''r2'' 90) ''v3'',
          entry_of (example_row ''q1'' ''r1'' 50) ''v1'',
          entry_of (example_row ''q3'' ''r3'' 50) ''v2'']\<rparr>)"
proof -
  have f: "data example_frame = example_data" "request_ids example_frame = example_ids"
    "lcv_assignments example_frame = example_lcvs"
    by (simp_all add: example_frame_def)
  have ne: "selected_rows example_data example_ids \<noteq> []"
    by (simp add: example_selected)
  show ?thesis
    by (simp add: allocate_call_eq f ne example_sorted example_prioritized)
qed

lemma example_filtered:
  "filter (\<lambda>r. date_only r = Date 2024 7 16 \<and> MGS r = ''M1'') example_data = example_data"
  by (simp add: example_data_def example_row_def)

lemma example_filtered_other_mgs:
  "filter (\<lambda>r. date_only r = Date 2024 7 16 \<and> MGS r = ''M9'') example_data = []"
  by (simp add: example_data_def example_row_def)

lemma example_data_nonempty: "example_data \<noteq> []"
  by (simp add: example_data_def)

lemma example_ids_present: "set (map Request_id example_data) \<inter> set example_ids \<noteq> {}"
  by (simp add: example_data_def example_row_def example_ids_def)

lemma example_ids_absent: "set (map Request_id example_data) \<inter> set [''q9''] = {}"
  by (simp add: example_data_def example_row_def)

lemma nan_selected: "selected_rows nan_data example_ids = nan_data"
  by (simp add: selected_rows_def nan_data_def example_ids_def example_row_def)

lemma nan_durations:
  "map out_Duration
     (allocate_lcvs_to_routes_api stable_sort_values nan_data example_ids example_lcvs) =
     [Num 7, Num 5, NaN]"
proof -
  have "nan_data \<noteq> []"
    by (simp add: nan_data_def)
  moreover have "map Duration (stable_sort_values nan_data) = [Num 7, Num 5, NaN]"
    by (simp add: stable_sort_values_def sort_values_desc_def nan_data_def example_row_def)
  ultimately show ?thesis
    by (simp add: durations_allocate nan_selected)
qed

lemma example_durations:
  "map out_Duration
     (allocate_lcvs_to_routes_api stable_sort_values example_data example_ids example_lcvs) =
     [Num 90, Num 50, Num 50]"
  by (simp add: example_allocation entry_of_def example_row_def)

lemma example_parse:
  "request_date_of example_to_datetime example_ts_date ''2024/07/16'' = Inr (Date 2024 7 16)"
  "request_date_of example_to_datetime example_ts_date ''July 16, 2024'' = Inr (Date 2024 7 16)"
  "request_date_of example_to_datetime example_ts_date ''16.07.2024 ??'' = Inl ValueError"
  "request_date_of example_to_datetime example_ts_date ''0000-01-01'' =
     Inl (OtherException ''NotImplementedError'')"
  by (simp_all add: request_date_of_def example_to_datetime_def)

section \<open>The claims\<close>

subsection \<open>C1\<close>

text \<open>
  C1. The allocator ranks a vehicle by its stage string through the fixed table: rank 1 for
  \<open>Stage 3 (Filled - Waiting Area/Moving to DBS)\<close> and rank 2 for
  \<open>Stage 2 (Filling - Safe Zone)\<close> (both written with an en dash), rank 3 for
  \<open>Stage 1 (Empty - Waiting Area)\<close>, and rank 99 for any other string. The vehicle
  identifiers are sorted ascending by rank; the sorted list is a rearrangement of the keys
  of the mapping; and the sort is stable: the vehicles of one rank (rank 99 too) keep the
  insertion order of the mapping. The allocator hands the vehicles out in that order, one
  per route of its output, and writes \<open>Pending\<close> once they are used up.
\<close>

theorem C1_rank_and_stable_order:
  assumes "sort_values_contract sv"
  shows "priority_key lcvs v =
           (case map_of lcvs v of
              None \<Rightarrow> 99
            | Some stage \<Rightarrow>
                if stage = ''Stage 3 (Filled '' @ en_dash @ '' Waiting Area/Moving to DBS)'' then 1
                else if stage = ''Stage 2 (Filling '' @ en_dash @ '' Safe Zone)'' then 2
                else if stage = ''Stage 1 (Empty - Waiting Area)'' then 3
                else 99)
         \<and> sorted (map (priority_key lcvs) (prioritized_lcvs lcvs))
         \<and> mset (prioritized_lcvs lcvs) = mset (map fst lcvs)
         \<and> filter (\<lambda>x. priority_key lcvs x = k) (prioritized_lcvs lcvs) =
             filter (\<lambda>x. priority_key lcvs x = k) (map fst lcvs)
         \<and> map Allocated_LCV (allocate_lcvs_to_routes_api sv d ids lcvs) =
             take (length (selected_rows d ids)) (prioritized_lcvs lcvs) @
             replicate (length (selected_rows d ids) - length lcvs) ''Pending''"
proof -
  have "priority_key lcvs v =
           (case map_of lcvs v of
              None \<Rightarrow> 99
            | Some stage \<Rightarrow>
                if stage = ''Stage 3 (Filled '' @ en_dash @ '' Waiting Area/Moving to DBS)'' then 1
                else if stage = ''Stage 2 (Filling '' @ en_dash @ '' Safe Zone)'' then 2
                else if stage = ''Stage 1 (Empty - Waiting Area)'' then 3
                else 99)"
    by (simp add: priority_key_def stage_rank split: option.split)
  then show ?thesis
    using sorted_prioritized mset_prioritized stable_prioritized lcv_allocate [OF assms]
    by blast
qed

text \<open>
  C1, at the example: \<open>v2\<close> and \<open>v4\<close> carry unrecognised stages, get rank 99 and keep
  their order; the three selected routes receive \<open>v3\<close> (Stage 3), \<open>v1\<close> (Stage 1) and
  \<open>v2\<close>.
\<close>

theorem C1_witness:
  "sort_values_contract stable_sort_values \<and>
   priority_key example_lcvs ''v2'' = 99 \<and>
   filter (\<lambda>x. priority_key example_lcvs x = 99) (prioritized_lcvs example_lcvs) = [''v2'', ''v4''] \<and>
   map Allocated_LCV
     (allocate_lcvs_to_routes_api stable_sort_values example_data example_ids example_lcvs) =
     [''v3'', ''v1'', ''v2'']"
  using C1_rank_and_stable_order [OF stable_sort_values_contract,
      of example_lcvs "''v2''" 99 example_data example_ids]
    stable_sort_values_contract
  by (simp add: example_prioritized example_selected)
     (simp add: example_lcvs_def priority_key_def stage_priority_def en_dash_def)

subsection \<open>C2\<close>

text \<open>
  C2, amended. For a mapping with pairwise distinct keys: the entries that took a vehicle
  off the queue (the positions below the number of vehicles) carry pairwise different
  vehicles, so that a vehicle is assigned to at most one route; every vehicle identifier of
  the mapping other than the string \<open>Pending\<close> is in the \<open>Allocated_LCV\<close> field of at most
  one entry of the whole output; and the vehicles are consumed in priority order: if the
  entries at positions \<open>i\<close> and \<open>j\<close> are both assigned, to the vehicles \<open>a\<close> and \<open>b\<close>, and
  \<open>a\<close> has a strictly lower rank than \<open>b\<close>, then \<open>i \<le> j\<close>.
\<close>

theorem C2_unique_and_priority_order:
  assumes "sort_values_contract sv" and "distinct (map fst lcvs)"
  shows "(i < length (allocate_lcvs_to_routes_api sv d ids lcvs) \<longrightarrow> i < length lcvs \<longrightarrow>
            j < length (allocate_lcvs_to_routes_api sv d ids lcvs) \<longrightarrow> j < length lcvs \<longrightarrow>
            Allocated_LCV (allocate_lcvs_to_routes_api sv d ids lcvs ! i) =
              Allocated_LCV (allocate_lcvs_to_routes_api sv d ids lcvs ! j) \<longrightarrow> i = j)
         \<and> (v \<in> set (map fst lcvs) \<longrightarrow> v \<noteq> ''Pending'' \<longrightarrow>
            length (filter (\<lambda>e. Allocated_LCV e = v)
              (allocate_lcvs_to_routes_api sv d ids lcvs)) \<le> 1)
         \<and> (i < length (allocate_lcvs_to_routes_api sv d ids lcvs) \<longrightarrow> i < length lcvs \<longrightarrow>
            j < length (allocate_lcvs_to_routes_api sv d ids lcvs) \<longrightarrow> j < length lcvs \<longrightarrow>
            Allocated_LCV (allocate_lcvs_to_routes_api sv d ids lcvs ! i) = a \<longrightarrow>
            Allocated_LCV (allocate_lcvs_to_routes_api sv d ids lcvs ! j) = b \<longrightarrow>
            a \<in> set (map fst lcvs) \<and> b \<in> set (map fst lcvs) \<and>
            (priority_key lcvs a < priority_key lcvs b \<longrightarrow> i \<le> j))"
proof (intro conjI impI)
  assume "i < length (allocate_lcvs_to_routes_api sv d ids lcvs)" "i < length lcvs"
    "j < length (allocate_lcvs_to_routes_api sv d ids lcvs)" "j < length lcvs"
    "Allocated_LCV (allocate_lcvs_to_routes_api sv d ids lcvs ! i) =
       Allocated_LCV (allocate_lcvs_to_routes_api sv d ids lcvs ! j)"
  then show "i = j"
    by (rule assigned_distinct_allocate [OF assms])
next
  assume "v \<noteq> ''Pending''"
  then show "length (filter (\<lambda>e. Allocated_LCV e = v)
      (allocate_lcvs_to_routes_api sv d ids lcvs)) \<le> 1"
    by (rule count_lcv_allocate [OF assms])
next
  assume i: "i < length (allocate_lcvs_to_routes_api sv d ids lcvs)" "i < length lcvs"
    and a: "Allocated_LCV (allocate_lcvs_to_routes_api sv d ids lcvs ! i) = a"
  have "a = prioritized_lcvs lcvs ! i"
    using i a by (simp add: nth_lcv_allocate [OF assms(1)] length_allocate [OF assms(1)])
  then have "a \<in> set (prioritized_lcvs lcvs)"
    using i(2) by (simp add: length_prioritized)
  then show "a \<in> set (map fst lcvs)"
    by (simp only: set_prioritized)
next
  assume j: "j < length (allocate_lcvs_to_routes_api sv d ids lcvs)" "j < length lcvs"
    and b: "Allocated_LCV (allocate_lcvs_to_routes_api sv d ids lcvs ! j) = b"
  have "b = prioritized_lcvs lcvs ! j"
    using j b by (simp add: nth_lcv_allocate [OF assms(1)] length_allocate [OF assms(1)])
  then have "b \<in> set (prioritized_lcvs lcvs)"
    using j(2) by (simp add: length_prioritized)
  then show "b \<in> set (map fst lcvs)"
    by (simp only: set_prioritized)
next
  assume p: "i < length (allocate_lcvs_to_routes_api sv d ids lcvs)" "i < length lcvs"
    "j < length (allocate_lcvs_to_routes_api sv d ids lcvs)" "j < length lcvs"
    and ab: "Allocated_LCV (allocate_lcvs_to_routes_api sv d ids lcvs ! i) = a"
    "Allocated_LCV (allocate_lcvs_to_routes_api sv d ids lcvs ! j) = b"
    and r: "priority_key lcvs a < priority_key lcvs b"
  from r have "priority_key lcvs (Allocated_LCV (allocate_lcvs_to_routes_api sv d ids lcvs ! i)) <
      priority_key lcvs (Allocated_LCV (allocate_lcvs_to_routes_api sv d ids lcvs ! j))"
    by (simp only: ab)
  with p have "i < j"
    by (rule assigned_order_allocate [OF assms(1)])
  then show "i \<le> j" by simp
qed

text \<open>
  C2, at an example with a vehicle called \<open>Pending\<close>: the mapping \<open>v1\<close> (Stage 1),
  \<open>Pending\<close> (Stage 3) and three selected routes. The vehicle \<open>Pending\<close> (rank 1) is
  assigned to the first route and \<open>v1\<close> (rank 3) to the second, in priority order, each
  once; \<open>v1\<close> is in one field of the output.
\<close>

theorem C2_witness:
  "sort_values_contract stable_sort_values \<and> distinct (map fst pending_first_lcvs) \<and>
   0 < length (allocate_lcvs_to_routes_api stable_sort_values example_data example_ids
     pending_first_lcvs) \<and>
   1 < length (allocate_lcvs_to_routes_api stable_sort_values example_data example_ids
     pending_first_lcvs) \<and>
   0 < length pending_first_lcvs \<and> 1 < length pending_first_lcvs \<and>
   Allocated_LCV (allocate_lcvs_to_routes_api stable_sort_values example_data example_ids
     pending_first_lcvs ! 0) = ''Pending'' \<and>
   Allocated_LCV (allocate_lcvs_to_routes_api stable_sort_values example_data example_ids
     pending_first_lcvs ! 1) = ''v1'' \<and>
   ''Pending'' \<in> set (map fst pending_first_lcvs) \<and> ''v1'' \<in> set (map fst pending_first_lcvs) \<and>
   priority_key pending_first_lcvs ''Pending'' < priority_key pending_first_lcvs ''v1'' \<and>
   (0::nat) \<le> 1 \<and> ''v1'' \<noteq> ''Pending'' \<and>
   length (filter (\<lambda>e. Allocated_LCV e = ''v1'')
     (allocate_lcvs_to_routes_api stable_sort_values example_data example_ids
        pending_first_lcvs)) \<le> 1"
proof -
  let ?out = "allocate_lcvs_to_routes_api stable_sort_values example_data example_ids
     pending_first_lcvs"
  have keys: "distinct (map fst pending_first_lcvs)"
    by (simp add: pending_first_lcvs_def)
  have len: "0 < length ?out" "1 < length ?out"
    by (simp_all add: pending_first_length)
  have lenq: "0 < length pending_first_lcvs" "1 < length pending_first_lcvs"
    by (simp_all add: pending_first_lcvs_def)
  have "Allocated_LCV (?out ! 0) = map Allocated_LCV ?out ! 0"
    "Allocated_LCV (?out ! 1) = map Allocated_LCV ?out ! 1"
    by (simp_all add: pending_first_length)
  then have at: "Allocated_LCV (?out ! 0) = ''Pending''" "Allocated_LCV (?out ! 1) = ''v1''"
    by (simp_all only: pending_first_allocation) simp_all
  have rank: "priority_key pending_first_lcvs ''Pending'' < priority_key pending_first_lcvs ''v1''"
    by (simp add: pending_first_lcvs_def priority_key_def stage_priority_def en_dash_def)
  have np: "''v1'' \<noteq> ''Pending''" by simp
  note t = C2_unique_and_priority_order [OF stable_sort_values_contract keys,
      of 0 example_data example_ids 1 "''v1''" "''Pending''" "''v1''"]
  note t2 = t [THEN conjunct2, THEN conjunct1, rule_format]
  note t3 = t [THEN conjunct2, THEN conjunct2, rule_format, OF len(1) lenq(1) len(2) lenq(2) at]
  have mem: "''Pending'' \<in> set (map fst pending_first_lcvs)"
    "''v1'' \<in> set (map fst pending_first_lcvs)"
    using t3 by (rule conjunct1, rule conjunct2 [THEN conjunct1])
  have ord: "(0::nat) \<le> 1"
    using t3 [THEN conjunct2, THEN conjunct2, rule_format, OF rank] .
  have cnt: "length (filter (\<lambda>e. Allocated_LCV e = ''v1'')
      (allocate_lcvs_to_routes_api stable_sort_values example_data example_ids
         pending_first_lcvs)) \<le> 1"
    using mem(2) np by (rule t2)
  show ?thesis
    by (intro conjI stable_sort_values_contract keys len lenq at mem rank ord np cnt)
qed

text \<open>
  C2 as written fails for a vehicle whose identifier is the string \<open>Pending\<close>. With the
  same mapping and three selected routes the fields read \<open>Pending\<close>, \<open>v1\<close>, \<open>Pending\<close>: the
  identifier \<open>Pending\<close> of the mapping is in the field of two entries, the one of its own
  route and the one of the route left without a vehicle.
\<close>

theorem C2_counterexample:
  "sort_values_contract stable_sort_values \<and> distinct (map fst pending_first_lcvs) \<and>
   ''Pending'' \<in> set (map fst pending_first_lcvs) \<and>
   map Allocated_LCV
     (allocate_lcvs_to_routes_api stable_sort_values example_data example_ids
        pending_first_lcvs) = [''Pending'', ''v1'', ''Pending''] \<and>
   \<not> length (filter (\<lambda>e. Allocated_LCV e = ''Pending'')
       (allocate_lcvs_to_routes_api stable_sort_values example_data example_ids
          pending_first_lcvs)) \<le> 1"
proof -
  have "distinct (map fst pending_first_lcvs)" "''Pending'' \<in> set (map fst pending_first_lcvs)"
    by (simp_all add: pending_first_lcvs_def)
  moreover have "\<not> length (filter (\<lambda>e. Allocated_LCV e = ''Pending'')
       (allocate_lcvs_to_routes_api stable_sort_values example_data example_ids
          pending_first_lcvs)) \<le> 1"
    by (simp add: count_lcv pending_first_allocation)
  ultimately show ?thesis
    using stable_sort_values_contract pending_first_allocation by simp
qed

subsection \<open>C3\<close>

text \<open>
  C3. The output has as many entries as there are selected routes (the rows of the frame
  whose \<open>Request_id\<close> is among the requested identifiers); the entries, with the vehicle
  field blanked, are the selected routes as a multiset, so that every selected route is
  there exactly once, none dropped and none duplicated; and an empty selection returns the
  empty list.
\<close>

theorem C3_one_entry_per_selected_route:
  "(sort_values_contract sv \<longrightarrow>
      length (allocate_lcvs_to_routes_api sv d ids lcvs) = length (selected_rows d ids) \<and>
      mset (map (\<lambda>e. e\<lparr>Allocated_LCV := []\<rparr>) (allocate_lcvs_to_routes_api sv d ids lcvs)) =
        mset (map (\<lambda>r. entry_of r []) (selected_rows d ids)))
   \<and> (selected_rows d ids = [] \<longrightarrow> allocate_lcvs_to_routes_api sv d ids lcvs = [])"
proof (intro conjI impI)
  assume c: "sort_values_contract sv"
  show "length (allocate_lcvs_to_routes_api sv d ids lcvs) = length (selected_rows d ids)"
    by (rule length_allocate [OF c])
  show "mset (map (\<lambda>e. e\<lparr>Allocated_LCV := []\<rparr>) (allocate_lcvs_to_routes_api sv d ids lcvs)) =
        mset (map (\<lambda>r. entry_of r []) (selected_rows d ids))"
    by (rule routes_allocate [OF c])
next
  assume "selected_rows d ids = []"
  then show "allocate_lcvs_to_routes_api sv d ids lcvs = []"
    by (simp add: allocate_eq_pair_up)
qed

text \<open>
  C3, at the example: three selected routes give three entries, and the selection by an
  identifier that no route has gives the empty list.
\<close>

theorem C3_witness:
  "sort_values_contract stable_sort_values \<and>
   length (allocate_lcvs_to_routes_api stable_sort_values example_data example_ids example_lcvs) = 3 \<and>
   mset (map (\<lambda>e. e\<lparr>Allocated_LCV := []\<rparr>)
     (allocate_lcvs_to_routes_api stable_sort_values example_data example_ids example_lcvs)) =
     mset (map (\<lambda>r. entry_of r []) (selected_rows example_data example_ids)) \<and>
   selected_rows example_data [''q9''] = [] \<and>
   allocate_lcvs_to_routes_api stable_sort_values example_data [''q9''] example_lcvs = []"
  using C3_one_entry_per_selected_route
      [of stable_sort_values example_data example_ids example_lcvs]
    C3_one_entry_per_selected_route
      [of stable_sort_values example_data "[''q9'']" example_lcvs]
    stable_sort_values_contract
  by (simp add: example_selected example_selected_none)

subsection \<open>C4\<close>

text \<open>
  C4, amended. With the sort of the code (descending by \<open>Duration\<close>, whatever the
  arrangement of ties), the \<open>Duration\<close> values of the output are the numbers first and
  the missing values (NaN) after them, and the numbers never increase. When every selected
  route has a number as its \<open>Duration\<close>, the whole sequence of \<open>Duration\<close> values never
  increases.
\<close>

theorem C4_durations_non_increasing:
  "filter (\<lambda>x. x \<noteq> NaN)
     (map out_Duration (allocate_lcvs_to_routes_api (sort_values_desc ties) d ids lcvs)) @
   filter (\<lambda>x. x = NaN)
     (map out_Duration (allocate_lcvs_to_routes_api (sort_values_desc ties) d ids lcvs)) =
   map out_Duration (allocate_lcvs_to_routes_api (sort_values_desc ties) d ids lcvs)
   \<and> sorted_wrt float_ge
       (filter (\<lambda>x. x \<noteq> NaN)
          (map out_Duration (allocate_lcvs_to_routes_api (sort_values_desc ties) d ids lcvs)))
   \<and> (sort_values_contract ties \<longrightarrow> (\<forall>r \<in> set (selected_rows d ids). Duration r \<noteq> NaN) \<longrightarrow>
        sorted_wrt float_ge
          (map out_Duration (allocate_lcvs_to_routes_api (sort_values_desc ties) d ids lcvs)))"
proof (cases "selected_rows d ids = []")
  case True
  then show ?thesis
    by (simp add: durations_allocate)
next
  case False
  let ?sel = "selected_rows d ids"
  let ?ds = "map Duration (sort_values_desc ties ?sel)"
  have ds: "map out_Duration (allocate_lcvs_to_routes_api (sort_values_desc ties) d ids lcvs) = ?ds"
    using False by (simp add: durations_allocate)
  have split: "filter (\<lambda>x. x \<noteq> NaN) ?ds @ filter (\<lambda>x. x = NaN) ?ds = ?ds"
    using durations_sort_values_desc(3) [of ties ?sel, symmetric]
    by (simp only: durations_sort_values_desc(1,2))
  have numbers: "sorted_wrt float_ge (filter (\<lambda>x. x \<noteq> NaN) ?ds)"
    by (rule sorted_wrt_float_ge_no_NaN)
  have all: "sorted_wrt float_ge ?ds"
    if c: "sort_values_contract ties" and n: "\<forall>r \<in> set ?sel. Duration r \<noteq> NaN"
  proof -
    have "set (ties ?sel) = set ?sel"
      using c by (metis sort_values_contract_def mset_eq_setD)
    with n have "filter (\<lambda>r. Duration r = NaN) (ties ?sel) = []"
      by (simp add: filter_empty_conv)
    then have "filter (\<lambda>x. x = NaN) ?ds = []"
      by (simp only: durations_sort_values_desc(2) list.map)
    with split have "filter (\<lambda>x. x \<noteq> NaN) ?ds = ?ds"
      by simp
    with numbers show ?thesis
      by simp
  qed
  show ?thesis
    unfolding ds using split numbers all by blast
qed

text \<open>
  C4, at the examples: the three selected routes of the first frame give the durations
  90, 50, 50, and the frame with a missing duration gives 7, 5, NaN.
\<close>

theorem C4_witness:
  "sort_values_contract (\<lambda>met. met) \<and>
   map Duration (selected_rows example_data example_ids) = [Num 50, Num 90, Num 50] \<and>
   map out_Duration
     (allocate_lcvs_to_routes_api stable_sort_values example_data example_ids example_lcvs) =
     [Num 90, Num 50, Num 50] \<and>
   sorted_wrt float_ge
     (map out_Duration
        (allocate_lcvs_to_routes_api stable_sort_values example_data example_ids example_lcvs)) \<and>
   filter (\<lambda>x. x \<noteq> NaN)
     (map out_Duration
        (allocate_lcvs_to_routes_api stable_sort_values nan_data example_ids example_lcvs)) =
     [Num 7, Num 5] \<and>
   sorted_wrt float_ge
     (filter (\<lambda>x. x \<noteq> NaN)
        (map out_Duration
           (allocate_lcvs_to_routes_api stable_sort_values nan_data example_ids example_lcvs)))"
proof -
  have c: "sort_values_contract (\<lambda>met. met)"
    by (simp add: sort_values_contract_def)
  have n: "\<forall>r \<in> set (selected_rows example_data example_ids). Duration r \<noteq> NaN"
    by (simp add: example_selected example_row_def)
  note t = C4_durations_non_increasing [of "\<lambda>met. met" example_data example_ids example_lcvs,
      folded stable_sort_values_eq]
  note u = C4_durations_non_increasing [of "\<lambda>met. met" nan_data example_ids example_lcvs,
      folded stable_sort_values_eq]
  have "sorted_wrt float_ge
     (map out_Duration
        (allocate_lcvs_to_routes_api stable_sort_values example_data example_ids example_lcvs))"
    using t [THEN conjunct2, THEN conjunct2, rule_format, OF c] n by simp
  moreover have "sorted_wrt float_ge
     (filter (\<lambda>x. x \<noteq> NaN)
        (map out_Duration
           (allocate_lcvs_to_routes_api stable_sort_values nan_data example_ids example_lcvs)))"
    using u [THEN conjunct2, THEN conjunct1] .
  moreover have "filter (\<lambda>x. x \<noteq> NaN)
     (map out_Duration
        (allocate_lcvs_to_routes_api stable_sort_values nan_data example_ids example_lcvs)) =
     [Num 7, Num 5]"
    by (simp add: nan_durations)
  moreover have "map Duration (selected_rows example_data example_ids) = [Num 50, Num 90, Num 50]"
    by (simp add: example_selected example_row_def)
  ultimately show ?thesis
    using c example_durations by simp
qed

text \<open>
  C4 as written fails for a route whose \<open>Duration\<close> is missing: the frame with the
  durations 5, NaN, 7 comes out as 7, 5, NaN, and \<open>5 >= NaN\<close> is false.
\<close>

theorem C4_counterexample:
  "map Duration (selected_rows nan_data example_ids) = [Num 5, NaN, Num 7] \<and>
   map out_Duration
     (allocate_lcvs_to_routes_api stable_sort_values nan_data example_ids example_lcvs) =
     [Num 7, Num 5, NaN] \<and>
   \<not> float_ge (Num 5) NaN \<and>
   \<not> sorted_wrt float_ge
       (map out_Duration
          (allocate_lcvs_to_routes_api stable_sort_values nan_data example_ids example_lcvs))"
proof -
  have "map Duration (selected_rows nan_data example_ids) = [Num 5, NaN, Num 7]"
    by (simp add: nan_selected) (simp add: nan_data_def example_row_def)
  then show ?thesis
    by (simp add: nan_durations)
qed

subsection \<open>C5\<close>

text \<open>
  C5, amended. When the mapping has fewer vehicles than there are selected routes, the
  first entries carry the vehicles in priority order, and every entry after them (there are
  \<open>len(R) - len(V)\<close> of these, the last entries of the output) reads \<open>Pending\<close>. If no
  vehicle identifier of the mapping is the string \<open>Pending\<close>, exactly \<open>len(R) - len(V)\<close>
  entries read \<open>Pending\<close>.
\<close>

theorem C5_pending_fill:
  assumes "sort_values_contract sv" and "length lcvs < length (selected_rows d ids)"
  shows "take (length lcvs) (map Allocated_LCV (allocate_lcvs_to_routes_api sv d ids lcvs)) =
           prioritized_lcvs lcvs
         \<and> drop (length lcvs) (map Allocated_LCV (allocate_lcvs_to_routes_api sv d ids lcvs)) =
           replicate (length (selected_rows d ids) - length lcvs) ''Pending''
         \<and> (''Pending'' \<notin> set (map fst lcvs) \<longrightarrow>
             length (filter (\<lambda>e. Allocated_LCV e = ''Pending'')
               (allocate_lcvs_to_routes_api sv d ids lcvs)) =
             length (selected_rows d ids) - length lcvs)"
proof -
  let ?n = "length (selected_rows d ids)"
  let ?q = "prioritized_lcvs lcvs"
  have tk: "take ?n ?q = ?q"
    using assms(2) by (simp add: length_prioritized)
  have L: "map Allocated_LCV (allocate_lcvs_to_routes_api sv d ids lcvs) =
      ?q @ replicate (?n - length lcvs) ''Pending''"
    using lcv_allocate [OF assms(1), of d ids lcvs] by (simp only: tk)
  have "filter (\<lambda>x. x = ''Pending'') ?q = []" if "''Pending'' \<notin> set (map fst lcvs)"
    using that by (auto simp add: filter_empty_conv set_prioritized simp del: set_map)
  then show ?thesis
    by (simp add: L length_prioritized count_pending_allocate [OF assms(1)] tk)
qed

text \<open>
  C5, at the example: one vehicle and three selected routes give \<open>v9\<close>, \<open>Pending\<close>,
  \<open>Pending\<close>.
\<close>

theorem C5_witness:
  "sort_values_contract stable_sort_values \<and>
   length short_lcvs < length (selected_rows example_data example_ids) \<and>
   ''Pending'' \<notin> set (map fst short_lcvs) \<and>
   take (length short_lcvs) (map Allocated_LCV
     (allocate_lcvs_to_routes_api stable_sort_values example_data example_ids short_lcvs)) =
     [''v9''] \<and>
   drop (length short_lcvs) (map Allocated_LCV
     (allocate_lcvs_to_routes_api stable_sort_values example_data example_ids short_lcvs)) =
     [''Pending'', ''Pending''] \<and>
   length (filter (\<lambda>e. Allocated_LCV e = ''Pending'')
     (allocate_lcvs_to_routes_api stable_sort_values example_data example_ids short_lcvs)) = 2"
proof -
  have len: "length short_lcvs < length (selected_rows example_data example_ids)"
    by (simp add: example_selected short_lcvs_def)
  have np: "''Pending'' \<notin> set (map fst short_lcvs)"
    by (simp add: short_lcvs_def)
  have n: "length (selected_rows example_data example_ids) - length short_lcvs = 2"
    by (simp add: example_selected short_lcvs_def)
  show ?thesis
    using C5_pending_fill [OF stable_sort_values_contract len] np
      stable_sort_values_contract len
    by (simp add: n short_prioritized numeral_2_eq_2)
qed

text \<open>
  C5 as written fails when a vehicle is called \<open>Pending\<close>: with that one vehicle and three
  selected routes, three entries read \<open>Pending\<close>, not two.
\<close>

theorem C5_counterexample:
  "sort_values_contract stable_sort_values \<and>
   length pending_lcvs < length (selected_rows example_data example_ids) \<and>
   length (filter (\<lambda>e. Allocated_LCV e = ''Pending'')
     (allocate_lcvs_to_routes_api stable_sort_values example_data example_ids pending_lcvs)) \<noteq>
   length (selected_rows example_data example_ids) - length pending_lcvs"
  using stable_sort_values_contract
  by (simp add: count_lcv pending_allocation example_selected) (simp add: pending_lcvs_def)

subsection \<open>C7\<close>

text \<open>
  C7. The handler tests in this order: 500 when the frame was not loaded; 400 when the
  date expression raises \<open>ValueError\<close>, whatever the frame holds; 404 when no row has the
  date and the depot; 404 (with its own message) when rows have the date and the depot and
  none of them has a requested identifier; and otherwise success with the list of the
  allocator, which is not empty. These are the five outcomes of the claim. A sixth one
  exists: when the date expression raises an exception that is no \<open>ValueError\<close>, the
  exception leaves the handler uncaught.
\<close>

theorem C7_five_outcomes_and_uncaught_exception:
  assumes "sort_values_contract sv"
  shows "(df = None \<longrightarrow>
            create_allocation to_datetime ts_date sv df request =
              HTTPException 500 ''Data could not be loaded. API is non-operational.'')
         \<and> (df = Some rows \<longrightarrow>
            request_date_of to_datetime ts_date (selected_date request) = Inl ValueError \<longrightarrow>
            create_allocation to_datetime ts_date sv df request =
              HTTPException 400 ''Invalid date format. Please use YYYY-MM-DD.'')
         \<and> (df = Some rows \<longrightarrow>
            request_date_of to_datetime ts_date (selected_date request) =
              Inl (OtherException name) \<longrightarrow>
            create_allocation to_datetime ts_date sv df request =
              Unhandled (OtherException name))
         \<and> (df = Some rows \<longrightarrow>
            request_date_of to_datetime ts_date (selected_date request) = Inr day \<longrightarrow>
            filter (\<lambda>r. date_only r = day \<and> MGS r = selected_mgs request) rows = [] \<longrightarrow>
            create_allocation to_datetime ts_date sv df request =
              HTTPException 404 ''No data found for the selected date and MGS.'')
         \<and> (df = Some rows \<longrightarrow>
            request_date_of to_datetime ts_date (selected_date request) = Inr day \<longrightarrow>
            filter (\<lambda>r. date_only r = day \<and> MGS r = selected_mgs request) rows \<noteq> [] \<longrightarrow>
            set (map Request_id
                  (filter (\<lambda>r. date_only r = day \<and> MGS r = selected_mgs request) rows))
              \<inter> set (selected_request_ids request) = {} \<longrightarrow>
            create_allocation to_datetime ts_date sv df request =
              HTTPException 404
                ''None of the selected request_ids were found in the dataset for the given date and MGS.'')
         \<and> (df = Some rows \<longrightarrow>
            request_date_of to_datetime ts_date (selected_date request) = Inr day \<longrightarrow>
            filter (\<lambda>r. date_only r = day \<and> MGS r = selected_mgs request) rows \<noteq> [] \<longrightarrow>
            set (map Request_id
                  (filter (\<lambda>r. date_only r = day \<and> MGS r = selected_mgs request) rows))
              \<inter> set (selected_request_ids request) \<noteq> {} \<longrightarrow>
            create_allocation to_datetime ts_date sv df request =
              Success (allocate_lcvs_to_routes_api sv
                (filter (\<lambda>r. date_only r = day \<and> MGS r = selected_mgs request) rows)
                (selected_request_ids request) (lcv_stage_assignments request))
            \<and> allocate_lcvs_to_routes_api sv
                (filter (\<lambda>r. date_only r = day \<and> MGS r = selected_mgs request) rows)
                (selected_request_ids request) (lcv_stage_assignments request) \<noteq> [])"
proof -
  let ?p = "request_date_of to_datetime ts_date (selected_date request)"
  let ?f = "filter (\<lambda>r. date_only r = day \<and> MGS r = selected_mgs request) rows"
  let ?a = "allocate_lcvs_to_routes_api sv ?f (selected_request_ids request)
      (lcv_stage_assignments request)"
  let ?r = "create_allocation to_datetime ts_date sv df request"
  have e: "?a = [] \<longleftrightarrow> set (map Request_id ?f) \<inter> set (selected_request_ids request) = {}"
    by (simp only: allocate_empty_iff [OF assms] selected_rows_empty_iff)
  show ?thesis
  proof (intro conjI impI)
    assume "df = None"
    then show "?r = HTTPException 500 ''Data could not be loaded. API is non-operational.''"
      by (simp add: create_allocation_def)
  next
    assume "df = Some rows" "?p = Inl ValueError"
    then show "?r = HTTPException 400 ''Invalid date format. Please use YYYY-MM-DD.''"
      by (simp add: create_allocation_def)
  next
    assume "df = Some rows" "?p = Inl (OtherException name)"
    then show "?r = Unhandled (OtherException name)"
      by (simp add: create_allocation_def)
  next
    assume "df = Some rows" "?p = Inr day" "?f = []"
    then show "?r = HTTPException 404 ''No data found for the selected date and MGS.''"
      by (simp add: create_allocation_def)
  next
    assume h: "df = Some rows" "?p = Inr day" "?f \<noteq> []"
      "set (map Request_id ?f) \<inter> set (selected_request_ids request) = {}"
    from h(4) have "?a = []" by (simp only: e)
    with h(1,2,3) show "?r =
        HTTPException 404
          ''None of the selected request_ids were found in the dataset for the given date and MGS.''"
      by (simp add: create_allocation_def)
  next
    assume h: "df = Some rows" "?p = Inr day" "?f \<noteq> []"
      "set (map Request_id ?f) \<inter> set (selected_request_ids request) \<noteq> {}"
    from h(4) have ne: "?a \<noteq> []" by (simp only: e not_False_eq_True)
    with h(1,2,3) show "?r = Success ?a"
      by (simp add: create_allocation_def)
    from ne show "?a \<noteq> []" .
  qed
qed

text \<open>
  C7, at six requests: one for each of the five outcomes, and the date \<open>0000-01-01\<close>,
  which \<open>to_datetime\<close> accepts and \<open>date()\<close> refuses with \<open>NotImplementedError\<close>: with
  the frame loaded the request ends in none of the five outcomes.
\<close>

theorem C7_witness:
  "sort_values_contract stable_sort_values \<and>
   create_allocation example_to_datetime example_ts_date stable_sort_values None
     example_request =
     HTTPException 500 ''Data could not be loaded. API is non-operational.'' \<and>
   create_allocation example_to_datetime example_ts_date stable_sort_values (Some example_data)
     (example_request\<lparr>selected_date := ''16.07.2024 ??''\<rparr>) =
     HTTPException 400 ''Invalid date format. Please use YYYY-MM-DD.'' \<and>
   create_allocation example_to_datetime example_ts_date stable_sort_values (Some example_data)
     (example_request\<lparr>selected_date := ''0000-01-01''\<rparr>) =
     Unhandled (OtherException ''NotImplementedError'') \<and>
   create_allocation example_to_datetime example_ts_date stable_sort_values (Some example_data)
     (example_request\<lparr>selected_mgs := ''M9''\<rparr>) =
     HTTPException 404 ''No data found for the selected date and MGS.'' \<and>
   create_allocation example_to_datetime example_ts_date stable_sort_values (Some example_data)
     (example_request\<lparr>selected_request_ids := [''q9'']\<rparr>) =
     HTTPException 404
       ''None of the selected request_ids were found in the dataset for the given date and MGS.'' \<and>
   create_allocation example_to_datetime example_ts_date stable_sort_values (Some example_data)
     example_request =
     Success
       [entry_of (example_row ''q2'' ''r2'' 90) ''v3'',
        entry_of (example_row ''q1'' ''r1'' 50) ''v1'',
        entry_of (example_row ''q3'' ''r3'' 50) ''v2'']"
proof -
  note c = stable_sort_values_contract
  note t = C7_five_outcomes_and_uncaught_exception [OF c, of _ example_to_datetime example_ts_date]
  have "create_allocation example_to_datetime example_ts_date stable_sort_values None
      example_request =
     HTTPException 500 ''Data could not be loaded. API is non-operational.''"
    using t [of None example_request] by simp
  moreover have "create_allocation example_to_datetime example_ts_date stable_sort_values
     (Some example_data) (example_request\<lparr>selected_date := ''16.07.2024 ??''\<rparr>) =
     HTTPException 400 ''Invalid date format. Please use YYYY-MM-DD.''"
    using t [of "Some example_data" "example_request\<lparr>selected_date := ''16.07.2024 ??''\<rparr>"
        example_data] example_parse(3)
    by simp
  moreover have "create_allocation example_to_datetime example_ts_date stable_sort_values
     (Some example_data) (example_request\<lparr>selected_date := ''0000-01-01''\<rparr>) =
     Unhandled (OtherException ''NotImplementedError'')"
    using t [of "Some example_data" "example_request\<lparr>selected_date := ''0000-01-01''\<rparr>"
        example_data "''NotImplementedError''"] example_parse(4)
    by simp
  moreover have "create_allocation example_to_datetime example_ts_date stable_sort_values
     (Some example_data) (example_request\<lparr>selected_mgs := ''M9''\<rparr>) =
     HTTPException 404 ''No data found for the selected date and MGS.''"
    using t [of "Some example_data" "example_request\<lparr>selected_mgs := ''M9''\<rparr>"
        example_data _ "Date 2024 7 16"] example_parse(1) example_filtered_other_mgs
    by (simp add: example_request_def)
  moreover have "create_allocation example_to_datetime example_ts_date stable_sort_values
     (Some example_data) (example_request\<lparr>selected_request_ids := [''q9'']\<rparr>) =
     HTTPException 404
       ''None of the selected request_ids were found in the dataset for the given date and MGS.''"
    using t [of "Some example_data" "example_request\<lparr>selected_request_ids := [''q9'']\<rparr>"
        example_data _ "Date 2024 7 16"] example_parse(1)
      example_filtered example_data_nonempty example_ids_absent
    by (simp add: example_request_def)
  moreover have "create_allocation example_to_datetime example_ts_date stable_sort_values
       (Some example_data) example_request =
     Success
       [entry_of (example_row ''q2'' ''r2'' 90) ''v3'',
        entry_of (example_row ''q1'' ''r1'' 50) ''v1'',
        entry_of (example_row ''q3'' ''r3'' 50) ''v2'']"
    using t [of "Some example_data" example_request example_data _ "Date 2024 7 16"]
      example_parse(1) example_filtered example_data_nonempty example_ids_present
    by (simp add: example_request_def example_allocation)
  ultimately show ?thesis
    using c by simp
qed

subsection \<open>C8\<close>

text \<open>
  C8. A call of the allocator leaves its three argument objects as they were (the frame,
  the requested identifiers and the vehicle mapping), a second call on the objects the first
  call left behind returns the same list, and the list returned depends on the three
  arguments only.
\<close>

theorem C8_inputs_unchanged_and_repeatable:
  "data (snd (allocate_call sv st)) = data st
   \<and> request_ids (snd (allocate_call sv st)) = request_ids st
   \<and> lcv_assignments (snd (allocate_call sv st)) = lcv_assignments st
   \<and> fst (allocate_call sv (snd (allocate_call sv st))) = fst (allocate_call sv st)
   \<and> fst (allocate_call sv st) =
       allocate_lcvs_to_routes_api sv (data st) (request_ids st) (lcv_assignments st)"
  by (simp add: fst_allocate_call snd_allocate_call_inputs)

text \<open>
  C8, at the example: the call pops three vehicles off its own sorted list, which is left
  holding \<open>v4\<close>, while the arguments are unchanged and the second call returns the same
  three entries.
\<close>

theorem C8_witness:
  "data (snd (allocate_call stable_sort_values example_frame)) = example_data \<and>
   request_ids (snd (allocate_call stable_sort_values example_frame)) = example_ids \<and>
   lcv_assignments (snd (allocate_call stable_sort_values example_frame)) = example_lcvs \<and>
   lcvs_to_allocate (snd (allocate_call stable_sort_values example_frame)) = [''v4''] \<and>
   fst (allocate_call stable_sort_values
          (snd (allocate_call stable_sort_values example_frame))) =
     [entry_of (example_row ''q2'' ''r2'' 90) ''v3'',
      entry_of (example_row ''q1'' ''r1'' 50) ''v1'',
      entry_of (example_row ''q3'' ''r3'' 50) ''v2'']"
proof -
  note t = C8_inputs_unchanged_and_repeatable [of stable_sort_values example_frame]
  have f: "data example_frame = example_data" "request_ids example_frame = example_ids"
    "lcv_assignments example_frame = example_lcvs"
    by (simp_all add: example_frame_def)
  have r: "fst (allocate_call stable_sort_values example_frame) =
     [entry_of (example_row ''q2'' ''r2'' 90) ''v3'',
      entry_of (example_row ''q1'' ''r1'' 50) ''v1'',
      entry_of (example_row ''q3'' ''r3'' 50) ''v2'']"
    by (simp only: example_call fst_conv)
  have q: "lcvs_to_allocate (snd (allocate_call stable_sort_values example_frame)) = [''v4'']"
    by (simp add: example_call)
  from t have "data (snd (allocate_call stable_sort_values example_frame)) = example_data"
    and "request_ids (snd (allocate_call stable_sort_values example_frame)) = example_ids"
    and "lcv_assignments (snd (allocate_call stable_sort_values example_frame)) = example_lcvs"
    and "fst (allocate_call stable_sort_values
          (snd (allocate_call stable_sort_values example_frame))) =
     [entry_of (example_row ''q2'' ''r2'' 90) ''v3'',
      entry_of (example_row ''q1'' ''r1'' 50) ''v1'',
      entry_of (example_row ''q3'' ''r3'' 50) ''v2'']"
    by (simp_all only: f r)
  with q show ?thesis by (intro conjI)
qed

subsection \<open>C9\<close>

text \<open>
  C9, amended. If the vehicle at position \<open>i\<close> of the priority order is called
  \<open>Pending\<close> and position \<open>i\<close> receives a route, then the entry of that route is the very
  entry the allocator writes for it when there is no vehicle at all, and the number of
  entries that read \<open>Pending\<close> is greater than the number \<open>len(R) - len(V)\<close> of routes left
  without a vehicle.
\<close>

theorem C9_pending_vehicle_inflates_count:
  assumes "sort_values_contract sv"
    and "i < length (selected_rows d ids)" and "i < length lcvs"
    and "prioritized_lcvs lcvs ! i = ''Pending''"
  shows "allocate_lcvs_to_routes_api sv d ids lcvs ! i =
           allocate_lcvs_to_routes_api sv d ids [] ! i
         \<and> length (selected_rows d ids) - length lcvs <
           length (filter (\<lambda>e. Allocated_LCV e = ''Pending'')
             (allocate_lcvs_to_routes_api sv d ids lcvs))"
proof -
  let ?n = "length (selected_rows d ids)"
  let ?q = "prioritized_lcvs lcvs"
  have i_sv: "i < length (sv (selected_rows d ids))"
    using assms(2) by (simp add: contract_length [OF assms(1)])
  have same: "allocate_lcvs_to_routes_api sv d ids lcvs ! i =
      allocate_lcvs_to_routes_api sv d ids [] ! i"
    using assms(3,4) i_sv
    by (simp add: allocate_contract [OF assms(1)] nth_pair_up length_prioritized
        prioritized_lcvs_def)
  have "i < length (take ?n ?q)"
    using assms(2,3) by (simp add: length_prioritized)
  moreover have "take ?n ?q ! i = ''Pending''"
    using assms(2,4) by simp
  ultimately have "''Pending'' \<in> set (take ?n ?q)"
    by (metis nth_mem)
  then have "filter (\<lambda>x. x = ''Pending'') (take ?n ?q) \<noteq> []"
    by (simp add: filter_empty_conv)
  then have "0 < length (filter (\<lambda>x. x = ''Pending'') (take ?n ?q))"
    by simp
  then have "?n - length lcvs <
      length (filter (\<lambda>e. Allocated_LCV e = ''Pending'')
        (allocate_lcvs_to_routes_api sv d ids lcvs))"
    by (simp add: count_pending_allocate [OF assms(1)])
  with same show ?thesis by simp
qed

text \<open>
  C9, at the example: with the single vehicle \<open>Pending\<close> and three selected routes, two
  routes are left without a vehicle and three entries read \<open>Pending\<close>.
\<close>

theorem C9_witness:
  "sort_values_contract stable_sort_values \<and>
   0 < length (selected_rows example_data example_ids) \<and> 0 < length pending_lcvs \<and>
   prioritized_lcvs pending_lcvs ! 0 = ''Pending'' \<and>
   allocate_lcvs_to_routes_api stable_sort_values example_data example_ids pending_lcvs ! 0 =
     allocate_lcvs_to_routes_api stable_sort_values example_data example_ids [] ! 0 \<and>
   length (selected_rows example_data example_ids) - length pending_lcvs = 2 \<and>
   2 < length (filter (\<lambda>e. Allocated_LCV e = ''Pending'')
         (allocate_lcvs_to_routes_api stable_sort_values example_data example_ids pending_lcvs))"
proof -
  have a: "0 < length (selected_rows example_data example_ids)"
    by (simp add: example_selected)
  have b: "0 < length pending_lcvs"
    by (simp add: pending_lcvs_def)
  have q: "prioritized_lcvs pending_lcvs ! 0 = ''Pending''"
    by (simp add: pending_prioritized)
  have n: "length (selected_rows example_data example_ids) - length pending_lcvs = 2"
    by (simp add: example_selected pending_lcvs_def)
  show ?thesis
    using C9_pending_vehicle_inflates_count [OF stable_sort_values_contract a b q]
      stable_sort_values_contract a b q n
    by simp
qed

text \<open>
  C9 as written fails when the vehicle called \<open>Pending\<close> receives no route: with the
  mapping \<open>Pending\<close> (Stage 1), \<open>v1\<close> (Stage 3) and one selected route, the only entry
  carries \<open>v1\<close>; no entry reads \<open>Pending\<close> and no route is left without a vehicle.
\<close>

theorem C9_counterexample:
  "sort_values_contract stable_sort_values \<and>
   ''Pending'' \<in> set (map fst pending_last_lcvs) \<and>
   \<not> length (selected_rows example_data [''q2'']) - length pending_last_lcvs <
      length (filter (\<lambda>e. Allocated_LCV e = ''Pending'')
        (allocate_lcvs_to_routes_api stable_sort_values example_data [''q2''] pending_last_lcvs))"
  using stable_sort_values_contract
  by (simp add: count_lcv pending_last_allocation) (simp add: pending_last_lcvs_def)

subsection \<open>C10\<close>




end
